theory Spec2Isabelle
  imports Main "HOL-Library.List_Lexorder" "HOL-Library.Char_ord" "HOL-Library.Multiset"
begin

section \<open>Values and the syntax tree\<close>

text \<open>
  A runtime value is nil, a bool, a number or a pointer to a heap cell. The number type
  of the interpreter is a machine double; it is left open here as the type parameter
  \<open>'n\<close>, and nothing below depends on what arithmetic does.
\<close>

datatype 'n Value = NilValue | BooleanValue bool | NumberValue 'n | ObjectValue nat

text \<open>\<open>ENUMERATE_BINARY_OPS\<close> and \<open>UnaryExpression::Op\<close> of \<open>Source/AST.h\<close>.\<close>

datatype BinaryOp =
    Op_Add | Op_Sub | Op_Mult | Op_Div | Op_Pow
  | Op_Equals | Op_NotEquals | Op_GreaterThan | Op_LessThan
  | Op_GreaterThanOrEquals | Op_LessThanOrEquals
  | Op_ShiftLeft | Op_ShiftRight
  | Op_And | Op_Or | Op_Xor | Op_StringConcat | Op_Modulo

datatype UnaryOp = Op_Not | Op_Negate | Op_Length

text \<open>
  The node classes whose \<open>execute\<close> is in \<open>AST.cpp\<close>, with the members their
  declarations give them. A function declaration has an optional name, the children of its
  body block and its parameters, each a name with an optional default-value expression; an
  \<open>if\<close> has a test, a consequent and an alternate, all three always there (the
  \<open>IfStatement\<close> of \<open>src/AST.h\<close>, the declaration that \<open>Value IfStatement::execute\<close>
  of \<open>AST.cpp\<close> fits); a member expression has the \<open>computed\<close> flag; an object
  expression holds its properties in a \<open>std::map\<close> keyed by the property name.
\<close>

datatype 'n ASTNode =
    Literal "'n Value"
  | BlockStatement "'n ASTNode list"
  | FunctionDeclaration "string option" "'n ASTNode list" "(string \<times> 'n ASTNode option) list"
  | CallExpression "'n ASTNode" "'n ASTNode list"
  | ReturnStatement "'n ASTNode"
  | IfStatement "'n ASTNode" "'n ASTNode" "'n ASTNode"
  | WhileStatement "'n ASTNode" "'n ASTNode"
  | Identifier string
  | AssignmentExpression "'n ASTNode" "'n ASTNode"
  | UnaryExpression UnaryOp "'n ASTNode"
  | BinaryExpression "'n ASTNode" BinaryOp "'n ASTNode"
  | MemberExpression "'n ASTNode" "'n ASTNode" bool
  | ObjectExpression "(string \<times> 'n ASTNode) list"
  | ArrayExpression "'n ASTNode list"

type_synonym 'n Parameter = "string \<times> 'n ASTNode option"

section \<open>Heap objects\<close>

text \<open>
  Every object has the property map \<open>m_properties\<close>; the subclasses add their own state.
  A function object is built from the declaration's name, body and parameters, and from
  nothing else. A native function wraps a host procedure from the argument vector to a
  value. An FFI object holds the handle \<open>dlopen\<close> gave, null when loading failed.
\<close>

datatype 'n ObjectKind =
    PlainObject
  | StringObject string
  | ArrayObject "'n Value list"
  | FunctionObject "string option" "'n ASTNode list" "'n Parameter list"
  | NativeFunction "'n Value list \<Rightarrow> 'n Value"
  | FFIObject "string option"

record 'n Object =
  m_properties :: "string \<rightharpoonup> 'n Value"
  kind :: "'n ObjectKind"

datatype ExceptionKind = TypeError | ReferenceError | FileNotFound

text \<open>
  What ends an evaluation other than a value: a failed \<open>assert\<close>, reaching
  \<open>__builtin_unreachable()\<close>, the \<open>std::out_of_range\<close> of \<open>std::map::at\<close>, a
  pointer to no live cell, and an exception of the language.
\<close>

datatype Failure =
    AssertionFailed | Unreachable | OutOfRange | DanglingPointer
  | Thrown ExceptionKind

text \<open>
  A property key is built from a number or from a string (the two constructor calls of
  \<open>AST.cpp\<close>).
\<close>

datatype 'n PropertyKey = KeyNumber 'n | KeyString string

record 'n Heap =
  cells :: "nat \<rightharpoonup> 'n Object"
  next_cell :: nat

text \<open>
  The runtime parts that the evaluator and the object model call and that are not among
  the sources, taken as a parameter: whether a key built from a number counts as a string
  key and the string it stands for (\<open>PropertyKey\<close>), the operators of \<open>Value\<close> on
  numbers and strings, and the accessors of the two classes that index their elements by
  number keys, \<open>ArrayObject\<close> and \<open>StringObject\<close>.
\<close>

record 'n Runtime =
  number_key_is_string :: bool
  number_to_string :: "'n \<Rightarrow> string"
  Value_operator :: "BinaryOp \<Rightarrow> 'n Value \<Rightarrow> 'n Value \<Rightarrow> 'n Value"
  Value_string_concat :: "'n Value \<Rightarrow> 'n Value \<Rightarrow> 'n Heap \<Rightarrow> 'n Value \<times> 'n Heap"
  Value_length :: "'n Value \<Rightarrow> 'n Heap \<Rightarrow> 'n Value"
  indexed_get :: "'n PropertyKey \<Rightarrow> 'n Object \<Rightarrow> Failure + 'n Value"
  indexed_put :: "'n PropertyKey \<Rightarrow> 'n Value \<Rightarrow> 'n Object \<Rightarrow> Failure + 'n Object"
  indexed_contains :: "'n PropertyKey \<Rightarrow> 'n Object \<Rightarrow> Failure + bool"

text \<open>
  Modelled from the spec: \<open>is_string\<close> and \<open>string\<close> of \<open>PropertyKey\<close> (not among
  the sources). A key built from a string is that string. A key built from a number is
  coerced to the string form of the number, \<open>number_to_string\<close>; the spec permits it
  wherever a key is used, which is \<open>number_key_is_string\<close>, and the accessors of
  \<open>Object.cpp\<close> assert it.
\<close>

definition PropertyKey_is_string :: "'n Runtime \<Rightarrow> 'n PropertyKey \<Rightarrow> bool" where
  "PropertyKey_is_string rt key =
     (case key of KeyString s \<Rightarrow> True | KeyNumber n \<Rightarrow> number_key_is_string rt)"

definition PropertyKey_string :: "'n Runtime \<Rightarrow> 'n PropertyKey \<Rightarrow> string" where
  "PropertyKey_string rt key =
     (case key of KeyString s \<Rightarrow> s | KeyNumber n \<Rightarrow> number_to_string rt n)"

subsection \<open>\<open>Object.cpp\<close>\<close>

text \<open>\<open>Object::get\<close>: the assertion, then \<open>m_properties.at\<close>, which throws on a missing key.\<close>

definition Object_get :: "'n Runtime \<Rightarrow> 'n PropertyKey \<Rightarrow> 'n Object \<Rightarrow> Failure + 'n Value" where
  "Object_get rt key obj =
     (if \<not> PropertyKey_is_string rt key then Inl AssertionFailed
      else case m_properties obj (PropertyKey_string rt key) of
             None \<Rightarrow> Inl OutOfRange
           | Some v \<Rightarrow> Inr v)"

text \<open>\<open>Object::put\<close>: the assertion, then \<open>m_properties[key.string()] = value\<close>.\<close>

definition Object_put :: "'n Runtime \<Rightarrow> 'n PropertyKey \<Rightarrow> 'n Value \<Rightarrow> 'n Object \<Rightarrow> Failure + 'n Object" where
  "Object_put rt key v obj =
     (if \<not> PropertyKey_is_string rt key then Inl AssertionFailed
      else Inr (obj\<lparr>m_properties := (m_properties obj)(PropertyKey_string rt key \<mapsto> v)\<rparr>))"

text \<open>\<open>Object::contains\<close>: the assertion, then \<open>m_properties.count\<close>.\<close>

definition Object_contains :: "'n Runtime \<Rightarrow> 'n PropertyKey \<Rightarrow> 'n Object \<Rightarrow> Failure + bool" where
  "Object_contains rt key obj =
     (if \<not> PropertyKey_is_string rt key then Inl AssertionFailed
      else Inr (m_properties obj (PropertyKey_string rt key) \<noteq> None))"

text \<open>\<open>FFIObject::put\<close> is \<open>ASSERT_NOT_REACHED()\<close>.\<close>

definition FFIObject_put :: "'n PropertyKey \<Rightarrow> 'n Value \<Rightarrow> 'n Object \<Rightarrow> Failure + 'n Object" where
  "FFIObject_put key v obj = Inl AssertionFailed"

text \<open>
  The accessors are virtual: a call through an object pointer runs the accessor of the
  object's class, the parameter's for an array and for a string, \<open>FFIObject::put\<close> for
  a put on an FFI object, and the functions of \<open>Object.cpp\<close> in every other case.
\<close>

definition is_indexed :: "'n Object \<Rightarrow> bool" where
  "is_indexed obj = (case kind obj of ArrayObject xs \<Rightarrow> True | StringObject s \<Rightarrow> True | _ \<Rightarrow> False)"

definition virtual_get :: "'n Runtime \<Rightarrow> 'n PropertyKey \<Rightarrow> 'n Object \<Rightarrow> Failure + 'n Value" where
  "virtual_get rt key obj =
     (if is_indexed obj then indexed_get rt key obj else Object_get rt key obj)"

definition virtual_put :: "'n Runtime \<Rightarrow> 'n PropertyKey \<Rightarrow> 'n Value \<Rightarrow> 'n Object \<Rightarrow> Failure + 'n Object" where
  "virtual_put rt key v obj =
     (if is_indexed obj then indexed_put rt key v obj
      else case kind obj of
             FFIObject h \<Rightarrow> FFIObject_put key v obj
           | _ \<Rightarrow> Object_put rt key v obj)"

definition virtual_contains :: "'n Runtime \<Rightarrow> 'n PropertyKey \<Rightarrow> 'n Object \<Rightarrow> Failure + bool" where
  "virtual_contains rt key obj =
     (if is_indexed obj then indexed_contains rt key obj else Object_contains rt key obj)"

section \<open>The interpreter\<close>

text \<open>
  Modelled from the spec: the heap (\<open>Heap\<close> is not among the sources). Allocation
  returns a fresh pointer and keeps the object; a new object has no property. Collection
  is not modelled: no cell is ever freed.
\<close>

definition Heap_allocate :: "'n Object \<Rightarrow> 'n Heap \<Rightarrow> nat \<times> 'n Heap" where
  "Heap_allocate obj h =
     (next_cell h, h\<lparr>cells := (cells h)(next_cell h \<mapsto> obj), next_cell := Suc (next_cell h)\<rparr>)"

text \<open>
  The state of the interpreter: its heap, the stack of scopes (innermost first, the root
  scope last) and the flag \<open>do_return\<close> raises.
\<close>

record 'n Interpreter =
  heap :: "'n Heap"
  scope_stack :: "(string \<rightharpoonup> 'n Value) list"
  returning :: bool

text \<open>
  An evaluation ends with a value and the new state, or with a failure; \<open>None\<close> is an
  evaluation that was cut off before it ended.
\<close>

type_synonym ('n, 'a) Result = "(Failure + 'a \<times> 'n Interpreter) option"

fun and_then :: "('n, 'a) Result \<Rightarrow> ('a \<Rightarrow> 'n Interpreter \<Rightarrow> ('n, 'b) Result) \<Rightarrow> ('n, 'b) Result" where
  "and_then None f = None"
| "and_then (Some (Inl e)) f = Some (Inl e)"
| "and_then (Some (Inr (v, st))) f = f v st"

definition allocate :: "'n ObjectKind \<Rightarrow> 'n Interpreter \<Rightarrow> nat \<times> 'n Interpreter" where
  "allocate k st =
     (case Heap_allocate \<lparr>m_properties = Map.empty, kind = k\<rparr> (heap st) of
        (p, h) \<Rightarrow> (p, st\<lparr>heap := h\<rparr>))"

definition object_at :: "nat \<Rightarrow> 'n Interpreter \<Rightarrow> 'n Object option" where
  "object_at p st = cells (heap st) p"

text \<open>\<open>object->put(key, v)\<close> through a pointer: the object in the cell is updated in place.\<close>

definition put_at :: "'n Runtime \<Rightarrow> nat \<Rightarrow> 'n PropertyKey \<Rightarrow> 'n Value \<Rightarrow> 'n Interpreter \<Rightarrow> ('n, unit) Result" where
  "put_at rt p key v st =
     (case object_at p st of
        None \<Rightarrow> Some (Inl DanglingPointer)
      | Some obj \<Rightarrow>
          (case virtual_put rt key v obj of
             Inl e \<Rightarrow> Some (Inl e)
           | Inr obj' \<Rightarrow> Some (Inr ((), st\<lparr>heap := (heap st)\<lparr>cells := (cells (heap st))(p \<mapsto> obj')\<rparr>\<rparr>))))"

subsection \<open>\<open>Value\<close>\<close>

text \<open>
  Modelled from the spec: the operations of \<open>Value\<close> the evaluator calls (\<open>Value\<close> is
  not among the sources). Nil and false are falsy and every other value is truthy;
  \<open>and\<close> and \<open>or\<close> yield the deciding operand, \<open>xor\<close> coerces both sides to bool; a
  string value is a pointer to a string object; \<open>to_object\<close> leaves a pointer as it is
  and boxes any other value into a new object with no property.
\<close>

fun Value_to_boolean :: "'n Value \<Rightarrow> bool" where
  "Value_to_boolean NilValue = False"
| "Value_to_boolean (BooleanValue b) = b"
| "Value_to_boolean v = True"

definition Value_logical_and :: "'n Value \<Rightarrow> 'n Value \<Rightarrow> 'n Value" where
  "Value_logical_and l r = (if Value_to_boolean l then r else l)"

definition Value_logical_or :: "'n Value \<Rightarrow> 'n Value \<Rightarrow> 'n Value" where
  "Value_logical_or l r = (if Value_to_boolean l then l else r)"

definition Value_logical_xor :: "'n Value \<Rightarrow> 'n Value \<Rightarrow> 'n Value" where
  "Value_logical_xor l r = BooleanValue (Value_to_boolean l \<noteq> Value_to_boolean r)"

definition Value_as_string :: "'n Value \<Rightarrow> 'n Interpreter \<Rightarrow> string option" where
  "Value_as_string v st =
     (case v of
        ObjectValue p \<Rightarrow>
          (case object_at p st of
             Some obj \<Rightarrow> (case kind obj of StringObject s \<Rightarrow> Some s | _ \<Rightarrow> None)
           | None \<Rightarrow> None)
      | _ \<Rightarrow> None)"

definition Value_to_object :: "'n Value \<Rightarrow> 'n Interpreter \<Rightarrow> nat \<times> 'n Interpreter" where
  "Value_to_object v st = (case v of ObjectValue p \<Rightarrow> (p, st) | _ \<Rightarrow> allocate PlainObject st)"

subsection \<open>Scopes\<close>

text \<open>
  Modelled from the spec: the scope operations of \<open>Interpreter\<close> (not among the
  sources). Lookup walks the scopes outwards and an unbound name is a ReferenceError; an
  assignment rebinds the name in the nearest scope that defines it and otherwise declares
  it in the current scope.
\<close>

fun lookup_scopes :: "string \<Rightarrow> (string \<rightharpoonup> 'v) list \<Rightarrow> 'v option" where
  "lookup_scopes name [] = None"
| "lookup_scopes name (s # ss) =
     (case s name of Some v \<Rightarrow> Some v | None \<Rightarrow> lookup_scopes name ss)"

fun rebind_scopes :: "string \<Rightarrow> 'v \<Rightarrow> (string \<rightharpoonup> 'v) list \<Rightarrow> (string \<rightharpoonup> 'v) list option" where
  "rebind_scopes name v [] = None"
| "rebind_scopes name v (s # ss) =
     (if s name \<noteq> None then Some (s(name \<mapsto> v) # ss)
      else map_option ((#) s) (rebind_scopes name v ss))"

definition declare_scopes :: "string \<Rightarrow> 'v \<Rightarrow> (string \<rightharpoonup> 'v) list \<Rightarrow> (string \<rightharpoonup> 'v) list" where
  "declare_scopes name v ss =
     (case ss of [] \<Rightarrow> [[name \<mapsto> v]] | s # rest \<Rightarrow> s(name \<mapsto> v) # rest)"

definition get_variable :: "string \<Rightarrow> 'n Interpreter \<Rightarrow> ('n, 'n Value) Result" where
  "get_variable name st =
     (case lookup_scopes name (scope_stack st) of
        Some v \<Rightarrow> Some (Inr (v, st))
      | None \<Rightarrow> Some (Inl (Thrown ReferenceError)))"

definition set_variable :: "string \<Rightarrow> 'n Value \<Rightarrow> 'n Interpreter \<Rightarrow> 'n Interpreter" where
  "set_variable name v st =
     st\<lparr>scope_stack :=
          (case rebind_scopes name v (scope_stack st) of
             Some ss \<Rightarrow> ss
           | None \<Rightarrow> declare_scopes name v (scope_stack st))\<rparr>"

definition do_return :: "'n Interpreter \<Rightarrow> 'n Interpreter" where
  "do_return st = st\<lparr>returning := True\<rparr>"

subsection \<open>\<open>Interpreter::run\<close>\<close>

text \<open>
  Modelled from the spec: \<open>Interpreter::run\<close> (not among the sources), with the
  arguments \<open>AST.cpp\<close> calls it with: the block, the kind of scope and the bindings the
  scope starts with. A new scope is entered; the children are executed in order until one
  raises the return flag; the value is the last executed child's, nil for an empty block;
  the scope is left, and a function scope absorbs the return. The new scope is entered
  on top of the scopes current at the call, for a function scope too: a call gives
  \<open>run\<close> the body and the argument bindings and nothing else of the function object,
  so there is no other scope it could be entered on. \<open>ex\<close> is \<open>execute\<close> on a child
  node.
\<close>

datatype ScopeType = ScopeType_Block | ScopeType_Function

fun run_children ::
  "('n ASTNode \<Rightarrow> 'n Interpreter \<Rightarrow> ('n, 'n Value) Result) \<Rightarrow> 'n ASTNode list \<Rightarrow> 'n Value \<Rightarrow>
   'n Interpreter \<Rightarrow> ('n, 'n Value) Result" where
  "run_children ex [] v st = Some (Inr (v, st))"
| "run_children ex (child # children) v st =
     and_then (ex child st)
       (\<lambda>v' st'. if returning st' then Some (Inr (v', st')) else run_children ex children v' st')"

definition enter_scope :: "(string \<rightharpoonup> 'n Value) \<Rightarrow> 'n Interpreter \<Rightarrow> 'n Interpreter" where
  "enter_scope arguments st = st\<lparr>scope_stack := arguments # scope_stack st\<rparr>"

definition leave_scope :: "ScopeType \<Rightarrow> 'n Interpreter \<Rightarrow> 'n Interpreter" where
  "leave_scope scope_type st =
     st\<lparr>scope_stack := tl (scope_stack st),
        returning := (if scope_type = ScopeType_Function then False else returning st)\<rparr>"

definition Interpreter_run ::
  "('n ASTNode \<Rightarrow> 'n Interpreter \<Rightarrow> ('n, 'n Value) Result) \<Rightarrow> 'n ASTNode list \<Rightarrow> ScopeType \<Rightarrow>
   (string \<rightharpoonup> 'n Value) \<Rightarrow> 'n Interpreter \<Rightarrow> ('n, 'n Value) Result" where
  "Interpreter_run ex children scope_type arguments st =
     and_then (run_children ex children NilValue (enter_scope arguments st))
       (\<lambda>v st'. Some (Inr (v, leave_scope scope_type st')))"

section \<open>\<open>AST.cpp\<close>: the evaluator\<close>

text \<open>
  Each \<open>execute\<close> of \<open>AST.cpp\<close> is one definition. \<open>ex\<close> is the virtual
  \<open>execute\<close> on a child node and \<open>rt\<close> the runtime parameter.
\<close>

type_synonym 'n Execute = "'n ASTNode \<Rightarrow> 'n Interpreter \<Rightarrow> ('n, 'n Value) Result"

definition Literal_execute :: "'n Value \<Rightarrow> 'n Interpreter \<Rightarrow> ('n, 'n Value) Result" where
  "Literal_execute v st = Some (Inr (v, st))"

definition BlockStatement_execute :: "'n Execute \<Rightarrow> 'n ASTNode list \<Rightarrow> 'n Interpreter \<Rightarrow> ('n, 'n Value) Result" where
  "BlockStatement_execute ex children st =
     Interpreter_run ex children ScopeType_Block Map.empty st"

text \<open>
  \<open>FunctionDeclaration::execute\<close>: allocate the function object from the name, the body
  and the parameters; bind the name when there is one; the value is the function.
\<close>

definition FunctionDeclaration_execute ::
  "string option \<Rightarrow> 'n ASTNode list \<Rightarrow> 'n Parameter list \<Rightarrow> 'n Interpreter \<Rightarrow> ('n, 'n Value) Result" where
  "FunctionDeclaration_execute name body parameters st =
     (case allocate (FunctionObject name body parameters) st of
        (function, st1) \<Rightarrow>
          Some (Inr (ObjectValue function,
                     (case name of
                        Some n \<Rightarrow> set_variable n (ObjectValue function) st1
                      | None \<Rightarrow> st1))))"

text \<open>
  The two argument loops of \<open>CallExpression::execute\<close>: the map from parameter to value
  for a function, filled index by index over the arguments, and the vector of values for
  a native function.
\<close>

fun pass_arguments ::
  "'n Execute \<Rightarrow> ('n Parameter \<times> 'n ASTNode) list \<Rightarrow> (string \<rightharpoonup> 'n Value) \<Rightarrow> 'n Interpreter \<Rightarrow>
   ('n, string \<rightharpoonup> 'n Value) Result" where
  "pass_arguments ex [] passed st = Some (Inr (passed, st))"
| "pass_arguments ex ((parameter, argument) # rest) passed st =
     and_then (ex argument st)
       (\<lambda>v st'. pass_arguments ex rest (passed(fst parameter \<mapsto> v)) st')"

fun execute_all :: "'n Execute \<Rightarrow> 'n ASTNode list \<Rightarrow> 'n Interpreter \<Rightarrow> ('n, 'n Value list) Result" where
  "execute_all ex [] st = Some (Inr ([], st))"
| "execute_all ex (node # nodes) st =
     and_then (ex node st)
       (\<lambda>v st1. and_then (execute_all ex nodes st1) (\<lambda>vs st2. Some (Inr (v # vs, st2))))"

text \<open>
  \<open>CallExpression::execute\<close>, first the callee: an identifier is looked up, a member
  expression is executed, and any other node is \<open>__builtin_unreachable()\<close>.
\<close>

definition execute_callee :: "'n Execute \<Rightarrow> 'n ASTNode \<Rightarrow> 'n Interpreter \<Rightarrow> ('n, 'n Value) Result" where
  "execute_callee ex callee st =
     (case callee of
        Identifier name \<Rightarrow> get_variable name st
      | MemberExpression object property computed \<Rightarrow> ex callee st
      | _ \<Rightarrow> Some (Inl Unreachable))"

definition is_function :: "'n Object \<Rightarrow> bool" where
  "is_function obj = (case kind obj of FunctionObject name body parameters \<Rightarrow> True | _ \<Rightarrow> False)"

definition is_native_function :: "'n Object \<Rightarrow> bool" where
  "is_native_function obj = (case kind obj of NativeFunction f \<Rightarrow> True | _ \<Rightarrow> False)"

text \<open>
  Then \<open>assert(value.is_object())\<close>, and the two kinds of callee: for a function,
  \<open>assert(function.parameters().size() == m_arguments.size())\<close>, the arguments, and
  \<open>run\<close> on the body with a function scope; for a native function, the arguments and the
  host procedure; \<open>__builtin_unreachable()\<close> for any other object.
\<close>

definition CallExpression_execute ::
  "'n Execute \<Rightarrow> 'n ASTNode \<Rightarrow> 'n ASTNode list \<Rightarrow> 'n Interpreter \<Rightarrow> ('n, 'n Value) Result" where
  "CallExpression_execute ex callee arguments st =
     and_then (execute_callee ex callee st)
       (\<lambda>v st1.
          case v of
            ObjectValue p \<Rightarrow>
              (case object_at p st1 of
                 None \<Rightarrow> Some (Inl DanglingPointer)
               | Some obj \<Rightarrow>
                   (case kind obj of
                      FunctionObject name body parameters \<Rightarrow>
                        if length parameters \<noteq> length arguments then Some (Inl AssertionFailed)
                        else
                          and_then (pass_arguments ex (zip parameters arguments) Map.empty st1)
                            (\<lambda>passed_arguments st2.
                               Interpreter_run ex body ScopeType_Function passed_arguments st2)
                    | NativeFunction native_function \<Rightarrow>
                        and_then (execute_all ex arguments st1)
                          (\<lambda>passed_arguments st2. Some (Inr (native_function passed_arguments, st2)))
                    | _ \<Rightarrow> Some (Inl Unreachable)))
          | _ \<Rightarrow> Some (Inl AssertionFailed))"

definition ReturnStatement_execute :: "'n Execute \<Rightarrow> 'n ASTNode \<Rightarrow> 'n Interpreter \<Rightarrow> ('n, 'n Value) Result" where
  "ReturnStatement_execute ex argument st =
     and_then (ex argument st) (\<lambda>argument_value st1. Some (Inr (argument_value, do_return st1)))"

text \<open>
  \<open>IfStatement::execute\<close>: the test, then the consequent when the test is truthy and
  the alternate when it is not.
\<close>

definition IfStatement_execute ::
  "'n Execute \<Rightarrow> 'n ASTNode \<Rightarrow> 'n ASTNode \<Rightarrow> 'n ASTNode \<Rightarrow> 'n Interpreter \<Rightarrow> ('n, 'n Value) Result" where
  "IfStatement_execute ex test consequent alternate st =
     and_then (ex test st)
       (\<lambda>t st1.
          if Value_to_boolean t then ex consequent st1
          else ex alternate st1)"

text \<open>
  The loop of \<open>WhileStatement::execute\<close>; the first argument bounds the number of tests,
  and a loop that needs more is cut off.
\<close>

fun while_loop ::
  "nat \<Rightarrow> 'n Execute \<Rightarrow> 'n ASTNode \<Rightarrow> 'n ASTNode \<Rightarrow> 'n Value \<Rightarrow> 'n Interpreter \<Rightarrow> ('n, 'n Value) Result" where
  "while_loop 0 ex test body return_value st = None"
| "while_loop (Suc k) ex test body return_value st =
     and_then (ex test st)
       (\<lambda>t st1.
          if Value_to_boolean t
          then and_then (ex body st1) (\<lambda>v st2. while_loop k ex test body v st2)
          else Some (Inr (return_value, st1)))"

definition WhileStatement_execute ::
  "nat \<Rightarrow> 'n Execute \<Rightarrow> 'n ASTNode \<Rightarrow> 'n ASTNode \<Rightarrow> 'n Interpreter \<Rightarrow> ('n, 'n Value) Result" where
  "WhileStatement_execute k ex test body st = while_loop k ex test body NilValue st"

definition Identifier_execute :: "string \<Rightarrow> 'n Interpreter \<Rightarrow> ('n, 'n Value) Result" where
  "Identifier_execute name st = get_variable name st"

text \<open>
  \<open>AssignmentExpression::execute\<close>. In the computed branch the two puts are the
  branches of an \<open>if\<close>/\<open>else if\<close> with no final \<open>else\<close>, and
  \<open>__builtin_unreachable()\<close> is the statement after it.
\<close>

definition AssignmentExpression_execute ::
  "'n Runtime \<Rightarrow> 'n Execute \<Rightarrow> 'n ASTNode \<Rightarrow> 'n ASTNode \<Rightarrow> 'n Interpreter \<Rightarrow> ('n, 'n Value) Result" where
  "AssignmentExpression_execute rt ex lhs rhs st =
     and_then (ex rhs st)
       (\<lambda>v st1.
          case lhs of
            Identifier name \<Rightarrow> Some (Inr (v, set_variable name v st1))
          | MemberExpression object property computed \<Rightarrow>
              and_then (ex object st1)
                (\<lambda>object_value st2.
                   case Value_to_object object_value st2 of
                     (object, st3) \<Rightarrow>
                       if computed then
                         and_then (ex property st3)
                           (\<lambda>computed_value st4.
                              and_then
                                (case computed_value of
                                   NumberValue n \<Rightarrow> put_at rt object (KeyNumber n) v st4
                                 | _ \<Rightarrow>
                                     (case Value_as_string computed_value st4 of
                                        Some s \<Rightarrow> put_at rt object (KeyString s) v st4
                                      | None \<Rightarrow> Some (Inr ((), st4))))
                                (\<lambda>u st5. Some (Inl Unreachable)))
                       else
                         (case property of
                            Identifier name \<Rightarrow>
                              and_then (put_at rt object (KeyString name) v st3)
                                (\<lambda>u st4. Some (Inr (v, st4)))
                          | _ \<Rightarrow> Some (Inl AssertionFailed)))
          | _ \<Rightarrow> Some (Inl Unreachable))"

text \<open>
  Modelled from the spec: \<open>operator!\<close> of \<open>Value\<close> is the negation of truthiness.
\<close>

definition UnaryExpression_execute ::
  "'n Runtime \<Rightarrow> 'n Execute \<Rightarrow> UnaryOp \<Rightarrow> 'n ASTNode \<Rightarrow> 'n Interpreter \<Rightarrow> ('n, 'n Value) Result" where
  "UnaryExpression_execute rt ex op operand st =
     and_then (ex operand st)
       (\<lambda>v st1.
          case op of
            Op_Not \<Rightarrow> Some (Inr (BooleanValue (\<not> Value_to_boolean v), st1))
          | Op_Length \<Rightarrow> Some (Inr (Value_length rt v (heap st1), st1))
          | _ \<Rightarrow> Some (Inl Unreachable))"

text \<open>
  \<open>BinaryExpression::execute\<close>: both operands are executed, the left one first, before
  the switch on the operator.
\<close>

definition BinaryExpression_execute ::
  "'n Runtime \<Rightarrow> 'n Execute \<Rightarrow> 'n ASTNode \<Rightarrow> BinaryOp \<Rightarrow> 'n ASTNode \<Rightarrow> 'n Interpreter \<Rightarrow> ('n, 'n Value) Result" where
  "BinaryExpression_execute rt ex lhs op rhs st =
     and_then (ex lhs st)
       (\<lambda>lhs_value st1.
          and_then (ex rhs st1)
            (\<lambda>rhs_value st2.
               case op of
                 Op_Add \<Rightarrow> Some (Inr (Value_operator rt Op_Add lhs_value rhs_value, st2))
               | Op_Sub \<Rightarrow> Some (Inr (Value_operator rt Op_Sub lhs_value rhs_value, st2))
               | Op_Mult \<Rightarrow> Some (Inr (Value_operator rt Op_Mult lhs_value rhs_value, st2))
               | Op_Div \<Rightarrow> Some (Inr (Value_operator rt Op_Div lhs_value rhs_value, st2))
               | Op_Equals \<Rightarrow> Some (Inr (Value_operator rt Op_Equals lhs_value rhs_value, st2))
               | Op_NotEquals \<Rightarrow> Some (Inr (Value_operator rt Op_NotEquals lhs_value rhs_value, st2))
               | Op_GreaterThan \<Rightarrow> Some (Inr (Value_operator rt Op_GreaterThan lhs_value rhs_value, st2))
               | Op_LessThan \<Rightarrow> Some (Inr (Value_operator rt Op_LessThan lhs_value rhs_value, st2))
               | Op_GreaterThanOrEquals \<Rightarrow>
                   Some (Inr (Value_operator rt Op_GreaterThanOrEquals lhs_value rhs_value, st2))
               | Op_LessThanOrEquals \<Rightarrow>
                   Some (Inr (Value_operator rt Op_LessThanOrEquals lhs_value rhs_value, st2))
               | Op_StringConcat \<Rightarrow>
                   (case Value_string_concat rt lhs_value rhs_value (heap st2) of
                      (v, h) \<Rightarrow> Some (Inr (v, st2\<lparr>heap := h\<rparr>)))
               | Op_And \<Rightarrow> Some (Inr (Value_logical_and lhs_value rhs_value, st2))
               | Op_Or \<Rightarrow> Some (Inr (Value_logical_or lhs_value rhs_value, st2))
               | Op_Xor \<Rightarrow> Some (Inr (Value_logical_xor lhs_value rhs_value, st2))
               | _ \<Rightarrow> Some (Inl Unreachable)))"

text \<open>
  \<open>MemberExpression::execute\<close>, first the key: the computed number or string
  (\<open>__builtin_unreachable()\<close> for any other computed value), or the name of the
  identifier that the property is asserted to be.
\<close>

definition member_key ::
  "'n Execute \<Rightarrow> 'n ASTNode \<Rightarrow> bool \<Rightarrow> 'n Interpreter \<Rightarrow> ('n, 'n PropertyKey) Result" where
  "member_key ex property computed st =
     (if computed then
        and_then (ex property st)
          (\<lambda>computed_value st1.
             case computed_value of
               NumberValue n \<Rightarrow> Some (Inr (KeyNumber n, st1))
             | _ \<Rightarrow>
                 (case Value_as_string computed_value st1 of
                    Some s \<Rightarrow> Some (Inr (KeyString s, st1))
                  | None \<Rightarrow> Some (Inl Unreachable)))
      else
        (case property of
           Identifier name \<Rightarrow> Some (Inr (KeyString name, st))
         | _ \<Rightarrow> Some (Inl AssertionFailed)))"

text \<open>
  Then the read: \<open>get\<close> is called only when the object contains the key, and the value
  is nil otherwise.
\<close>

definition MemberExpression_execute ::
  "'n Runtime \<Rightarrow> 'n Execute \<Rightarrow> 'n ASTNode \<Rightarrow> 'n ASTNode \<Rightarrow> bool \<Rightarrow> 'n Interpreter \<Rightarrow> ('n, 'n Value) Result" where
  "MemberExpression_execute rt ex object property computed st =
     and_then (ex object st)
       (\<lambda>object_value st1.
          case Value_to_object object_value st1 of
            (obj, st2) \<Rightarrow>
              and_then (member_key ex property computed st2)
                (\<lambda>key st3.
                   case object_at obj st3 of
                     None \<Rightarrow> Some (Inl DanglingPointer)
                   | Some cell \<Rightarrow>
                       (case virtual_contains rt key cell of
                          Inl e \<Rightarrow> Some (Inl e)
                        | Inr True \<Rightarrow>
                            (case virtual_get rt key cell of
                               Inl e \<Rightarrow> Some (Inl e)
                             | Inr v \<Rightarrow> Some (Inr (v, st3)))
                        | Inr False \<Rightarrow> Some (Inr (NilValue, st3)))))"

text \<open>
  \<open>ObjectExpression::execute\<close>: the object is allocated first; the loop then walks
  \<open>m_properties\<close>, a \<open>std::map\<close>, which iterates in ascending order of the keys
  whatever order they were inserted in. The node carries the pairs as they were declared
  and \<open>map_order\<close> gives them as the map iterates them (for keys that are distinct:
  which of two pairs with one key the map keeps is the parser's choice).
\<close>

definition map_order :: "(string \<times> 'a) list \<Rightarrow> (string \<times> 'a) list" where
  "map_order properties = sort_key fst properties"

fun put_properties ::
  "'n Runtime \<Rightarrow> 'n Execute \<Rightarrow> nat \<Rightarrow> (string \<times> 'n ASTNode) list \<Rightarrow> 'n Interpreter \<Rightarrow> ('n, unit) Result" where
  "put_properties rt ex object [] st = Some (Inr ((), st))"
| "put_properties rt ex object ((key, node) # rest) st =
     and_then (ex node st)
       (\<lambda>v st1. and_then (put_at rt object (KeyString key) v st1)
          (\<lambda>u st2. put_properties rt ex object rest st2))"

definition ObjectExpression_execute ::
  "'n Runtime \<Rightarrow> 'n Execute \<Rightarrow> (string \<times> 'n ASTNode) list \<Rightarrow> 'n Interpreter \<Rightarrow> ('n, 'n Value) Result" where
  "ObjectExpression_execute rt ex properties st =
     (case allocate PlainObject st of
        (object, st1) \<Rightarrow>
          and_then (put_properties rt ex object (map_order properties) st1)
            (\<lambda>u st2. Some (Inr (ObjectValue object, st2))))"

definition ArrayExpression_execute :: "'n Execute \<Rightarrow> 'n ASTNode list \<Rightarrow> 'n Interpreter \<Rightarrow> ('n, 'n Value) Result" where
  "ArrayExpression_execute ex elements st =
     and_then (execute_all ex elements st)
       (\<lambda>values st1.
          case allocate (ArrayObject values) st1 of
            (array, st2) \<Rightarrow> Some (Inr (ObjectValue array, st2)))"

text \<open>
  The virtual \<open>execute\<close>. The first argument bounds the depth of nested executions (and
  the number of tests of a loop); an evaluation that needs more is cut off, with \<open>None\<close>.
\<close>

fun execute :: "'n Runtime \<Rightarrow> nat \<Rightarrow> 'n ASTNode \<Rightarrow> 'n Interpreter \<Rightarrow> ('n, 'n Value) Result" where
  "execute rt 0 node st = None"
| "execute rt (Suc n) node st =
     (case node of
        Literal v \<Rightarrow> Literal_execute v st
      | BlockStatement children \<Rightarrow> BlockStatement_execute (execute rt n) children st
      | FunctionDeclaration name body parameters \<Rightarrow>
          FunctionDeclaration_execute name body parameters st
      | CallExpression callee arguments \<Rightarrow> CallExpression_execute (execute rt n) callee arguments st
      | ReturnStatement argument \<Rightarrow> ReturnStatement_execute (execute rt n) argument st
      | IfStatement test consequent alternate \<Rightarrow>
          IfStatement_execute (execute rt n) test consequent alternate st
      | WhileStatement test body \<Rightarrow> WhileStatement_execute n (execute rt n) test body st
      | Identifier name \<Rightarrow> Identifier_execute name st
      | AssignmentExpression lhs rhs \<Rightarrow> AssignmentExpression_execute rt (execute rt n) lhs rhs st
      | UnaryExpression op operand \<Rightarrow> UnaryExpression_execute rt (execute rt n) op operand st
      | BinaryExpression lhs op rhs \<Rightarrow> BinaryExpression_execute rt (execute rt n) lhs op rhs st
      | MemberExpression object property computed \<Rightarrow>
          MemberExpression_execute rt (execute rt n) object property computed st
      | ObjectExpression properties \<Rightarrow> ObjectExpression_execute rt (execute rt n) properties st
      | ArrayExpression elements \<Rightarrow> ArrayExpression_execute (execute rt n) elements st)"

section \<open>\<open>FFIObject.cpp\<close>\<close>

text \<open>
  The dynamic loader as the constructor and the destructor use it: the libraries
  \<open>dlopen\<close> can load, by file name, and how many times each is open. A library either
  lacks the symbol \<open>OreInitialize\<close> or has it, and then registers its exports, listed
  in the order the map of exports iterates them. The handle of a loaded library is its
  file name; the null handle is \<open>None\<close>. \<open>dlclose\<close> of a handle that \<open>dlopen\<close>
  gave closes the library once; \<open>dlclose\<close> of the null handle is not defined (the C
  library may crash there), and its result is \<open>None\<close>.
\<close>

record 'n Loader =
  libraries :: "string \<rightharpoonup> (string \<times> ('n Value list \<Rightarrow> 'n Value)) list option"
  open_count :: "string \<Rightarrow> nat"

definition dlopen :: "string \<Rightarrow> 'n Loader \<Rightarrow> string option \<times> 'n Loader" where
  "dlopen filename ld =
     (case libraries ld filename of
        None \<Rightarrow> (None, ld)
      | Some library \<Rightarrow>
          (Some filename, ld\<lparr>open_count := (open_count ld)(filename := Suc (open_count ld filename))\<rparr>))"

definition dlsym_OreInitialize ::
  "string \<Rightarrow> 'n Loader \<Rightarrow> (string \<times> ('n Value list \<Rightarrow> 'n Value)) list option" where
  "dlsym_OreInitialize handle ld =
     (case libraries ld handle of None \<Rightarrow> None | Some library \<Rightarrow> library)"

definition dlclose :: "string option \<Rightarrow> 'n Loader \<Rightarrow> 'n Loader option" where
  "dlclose handle ld =
     (case handle of
        None \<Rightarrow> None
      | Some h \<Rightarrow> Some (ld\<lparr>open_count := (open_count ld)(h := open_count ld h - 1)\<rparr>))"

text \<open>
  The loop of the constructor: each export becomes a new native function object, stored
  in \<open>m_properties\<close> under the export's name.
\<close>

fun register_exports ::
  "(string \<times> ('n Value list \<Rightarrow> 'n Value)) list \<Rightarrow> (string \<rightharpoonup> 'n Value) \<Rightarrow> 'n Interpreter \<Rightarrow>
   (string \<rightharpoonup> 'n Value) \<times> 'n Interpreter" where
  "register_exports [] properties st = (properties, st)"
| "register_exports ((name, decl) # exports) properties st =
     (case allocate (NativeFunction decl) st of
        (p, st1) \<Rightarrow> register_exports exports (properties(name \<mapsto> ObjectValue p)) st1)"

text \<open>
  What the constructor leaves: the object, the exception it threw through the
  interpreter, if any, the loader and the interpreter. It throws when \<open>dlopen\<close>
  gives the null handle and when \<open>dlsym\<close> finds no \<open>OreInitialize\<close>, and returns
  at once; otherwise it registers the exports.
\<close>

record 'n Constructed =
  ffi_object :: "'n Object"
  ffi_thrown :: "(ExceptionKind \<times> string) option"
  ffi_loader :: "'n Loader"
  ffi_interpreter :: "'n Interpreter"

definition FFIObject_constructor :: "string \<Rightarrow> 'n Loader \<Rightarrow> 'n Interpreter \<Rightarrow> 'n Constructed" where
  "FFIObject_constructor filename ld st =
     (case dlopen filename ld of
        (None, ld1) \<Rightarrow>
          \<lparr>ffi_object = \<lparr>m_properties = Map.empty, kind = FFIObject None\<rparr>,
           ffi_thrown = Some (FileNotFound, ''Not a valid shared object: '' @ filename),
           ffi_loader = ld1, ffi_interpreter = st\<rparr>
      | (Some handle, ld1) \<Rightarrow>
          (case dlsym_OreInitialize handle ld1 of
             None \<Rightarrow>
               \<lparr>ffi_object = \<lparr>m_properties = Map.empty, kind = FFIObject (Some handle)\<rparr>,
                ffi_thrown = Some (ReferenceError,
                  ''Cannot find '' @ [CHR 0x22] @ ''OreInitialize'' @ [CHR 0x22] @ '' function in '' @ filename),
                ffi_loader = ld1, ffi_interpreter = st\<rparr>
           | Some exports \<Rightarrow>
               (case register_exports exports Map.empty st of
                  (properties, st1) \<Rightarrow>
                    \<lparr>ffi_object = \<lparr>m_properties = properties, kind = FFIObject (Some handle)\<rparr>,
                     ffi_thrown = None, ffi_loader = ld1, ffi_interpreter = st1\<rparr>)))"

text \<open>
  The destructor is \<open>dlclose(m_handle)\<close>, whatever the handle: for the object that a
  failed load left, it is \<open>dlclose\<close> of the null handle. (An object of another class
  has no such destructor, and the loader stays as it is.)
\<close>

definition FFIObject_destructor :: "'n Object \<Rightarrow> 'n Loader \<Rightarrow> 'n Loader option" where
  "FFIObject_destructor obj ld =
     (case kind obj of FFIObject handle \<Rightarrow> dlclose handle ld | _ \<Rightarrow> Some ld)"

section \<open>A concrete runtime\<close>

text \<open>
  Modelled from the spec: the number keys of this instance of the runtime parameter,
  over the integers. Putting and getting by a number key is permitted and the key is
  coerced to its decimal string form: a key built from a number counts as a string key
  and stands for the decimal numeral of the number. The arithmetic and comparison
  operators of the instance work on numbers and give nil on anything else; the instance
  serves to evaluate programs.
\<close>

function decimal_digits :: "nat \<Rightarrow> string" where
  "decimal_digits n =
     (if n < 10 then [char_of (48 + n)]
      else decimal_digits (n div 10) @ [char_of (48 + n mod 10)])"
  by pat_completeness auto
termination
  by (relation "measure id") auto

declare decimal_digits.simps [simp del]

definition decimal_string :: "int \<Rightarrow> string" where
  "decimal_string i =
     (if i < 0 then CHR ''-'' # decimal_digits (nat (- i)) else decimal_digits (nat i))"

definition int_operator :: "BinaryOp \<Rightarrow> int Value \<Rightarrow> int Value \<Rightarrow> int Value" where
  "int_operator op l r =
     (case l of
        NumberValue a \<Rightarrow>
          (case r of
             NumberValue b \<Rightarrow>
               (case op of
                  Op_Add \<Rightarrow> NumberValue (a + b)
                | Op_Sub \<Rightarrow> NumberValue (a - b)
                | Op_Mult \<Rightarrow> NumberValue (a * b)
                | Op_Equals \<Rightarrow> BooleanValue (a = b)
                | Op_NotEquals \<Rightarrow> BooleanValue (a \<noteq> b)
                | Op_LessThan \<Rightarrow> BooleanValue (a < b)
                | Op_GreaterThan \<Rightarrow> BooleanValue (a > b)
                | Op_LessThanOrEquals \<Rightarrow> BooleanValue (a \<le> b)
                | Op_GreaterThanOrEquals \<Rightarrow> BooleanValue (a \<ge> b)
                | _ \<Rightarrow> NilValue)
           | _ \<Rightarrow> NilValue)
      | _ \<Rightarrow> NilValue)"

definition int_runtime :: "int Runtime" where
  "int_runtime =
     \<lparr>number_key_is_string = True,
      number_to_string = decimal_string,
      Value_operator = int_operator,
      Value_string_concat = (\<lambda>l r h. (NilValue, h)),
      Value_length = (\<lambda>v h. NilValue),
      indexed_get = (\<lambda>key obj. Inl OutOfRange),
      indexed_put = (\<lambda>key v obj. Inr obj),
      indexed_contains = (\<lambda>key obj. Inr False)\<rparr>"


text \<open>The interpreter before a program runs: an empty heap and the root scope, empty.\<close>

definition initial :: "'n Interpreter" where
  "initial = \<lparr>heap = \<lparr>cells = Map.empty, next_cell = 0\<rparr>, scope_stack = [Map.empty], returning = False\<rparr>"

text \<open>What an evaluation yields, and what a name is bound to when it has ended.\<close>

definition value_of :: "('n, 'a) Result \<Rightarrow> 'a option" where
  "value_of r = (case r of Some (Inr (v, st)) \<Rightarrow> Some v | _ \<Rightarrow> None)"

definition variable_after :: "string \<Rightarrow> ('n, 'a) Result \<Rightarrow> 'n Value option" where
  "variable_after name r =
     (case r of Some (Inr (v, st)) \<Rightarrow> lookup_scopes name (scope_stack st) | _ \<Rightarrow> None)"

section \<open>Example states\<close>

text \<open>The root scope binds \<open>f\<close> to the function \<open>fn (a = 1) return a\<close>, in cell 0.\<close>

definition function_in_scope :: "int Interpreter" where
  "function_in_scope =
     (case allocate
             (FunctionObject (Some ''f'') [ReturnStatement (Identifier ''a'')]
                [(''a'', Some (Literal (NumberValue 1)))]) initial of
        (p, st) \<Rightarrow> set_variable ''f'' (ObjectValue p) st)"

text \<open>The root scope binds \<open>g\<close> to the function \<open>fn () return 5\<close>, in cell 0.\<close>

definition constant_in_scope :: "int Interpreter" where
  "constant_in_scope =
     (case allocate (FunctionObject None [ReturnStatement (Literal (NumberValue 5))] []) initial of
        (p, st) \<Rightarrow> set_variable ''g'' (ObjectValue p) st)"

text \<open>The root scope binds \<open>o\<close> to a plain object with no property, in cell 0.\<close>

definition object_in_scope :: "int Interpreter" where
  "object_in_scope =
     (case allocate PlainObject initial of (p, st) \<Rightarrow> set_variable ''o'' (ObjectValue p) st)"

text \<open>
  A loader with two libraries: \<open>native.so\<close> exports \<open>first\<close> and \<open>count\<close>, and
  \<open>plain.so\<close> has no \<open>OreInitialize\<close>.
\<close>

definition example_loader :: "int Loader" where
  "example_loader =
     \<lparr>libraries =
        [''native.so'' \<mapsto>
           Some [(''first'', \<lambda>args. case args of [] \<Rightarrow> NilValue | v # vs \<Rightarrow> v),
                 (''count'', \<lambda>args. NumberValue (int (length args)))],
         ''plain.so'' \<mapsto> None],
      open_count = (\<lambda>handle. 0)\<rparr>"

section \<open>Properties\<close>

text \<open>The definitions a concrete program is evaluated with.\<close>

lemmas evaluation =
  Literal_execute_def BlockStatement_execute_def FunctionDeclaration_execute_def
  CallExpression_execute_def execute_callee_def ReturnStatement_execute_def IfStatement_execute_def
  WhileStatement_execute_def Identifier_execute_def AssignmentExpression_execute_def
  UnaryExpression_execute_def BinaryExpression_execute_def MemberExpression_execute_def member_key_def
  ObjectExpression_execute_def ArrayExpression_execute_def Interpreter_run_def enter_scope_def
  leave_scope_def get_variable_def set_variable_def do_return_def allocate_def
  Heap_allocate_def object_at_def put_at_def Value_as_string_def Value_to_object_def
  declare_scopes_def is_indexed_def virtual_put_def virtual_get_def virtual_contains_def Object_put_def
  Object_get_def Object_contains_def FFIObject_put_def PropertyKey_is_string_def
  PropertyKey_string_def Value_logical_and_def Value_logical_or_def Value_logical_xor_def
  map_order_def value_of_def variable_after_def initial_def int_runtime_def eval_nat_numeral

subsection \<open>Helper lemmas\<close>

lemma lookup_rebind_scopes:
  "rebind_scopes name v ss = Some ss' \<Longrightarrow> lookup_scopes name ss' = Some v"
  by (induction ss arbitrary: ss') (auto split: if_splits)

lemma lookup_set_variable:
  "lookup_scopes name (scope_stack (set_variable name v st)) = Some v"
  by (auto simp: set_variable_def declare_scopes_def lookup_rebind_scopes
           split: option.splits list.splits)

lemma heap_set_variable: "heap (set_variable name v st) = heap st"
  by (simp add: set_variable_def)


lemma filter_key_singleton:
  "distinct (map fst xs) \<Longrightarrow> k \<in> set xs \<Longrightarrow> filter (\<lambda>x. fst x = fst k) xs = [k]"
  by (induction xs) (auto simp: rev_image_eqI intro!: filter_False)

text \<open>The map iterates the same way whatever order its pairs were declared in.\<close>

lemma map_order_permutation:
  assumes "mset ps = mset ps'" and "distinct (map fst ps)"
  shows "map_order ps = map_order ps'"
  unfolding map_order_def
proof (rule properties_for_sort_key)
  show "mset (sort_key fst ps') = mset ps" using assms by simp
  show "sorted (map fst (sort_key fst ps'))" by simp
  have "mset (map fst ps) = mset (map fst ps')"
    using assms(1) by simp
  from mset_eq_imp_distinct_iff [OF this] have d': "distinct (map fst ps')"
    using assms(2) by blast
  fix k assume "k \<in> set (sort_key fst ps')"
  then have k: "k \<in> set ps'" "k \<in> set ps" using assms by (auto dest: mset_eq_setD)
  have flip: "(\<lambda>x. fst k = fst x) = (\<lambda>x. fst x = fst k)"
    by auto
  show "filter (\<lambda>x. fst k = fst x) (sort_key fst ps') = filter (\<lambda>x. fst k = fst x) ps"
    unfolding flip using k d' assms(2) by (simp add: sort_key_stable filter_key_singleton)
qed

text \<open>
  The loop of an object expression over literal values, with distinct keys, on a plain
  object: every pair ends as a property of the object and no other property changes.
\<close>

lemma put_properties_literals:
  assumes "object_at p st = Some obj"
      and "kind obj = PlainObject"
      and "distinct (map fst ps)"
      and "\<forall>node \<in> snd ` set ps. \<exists>v. node = Literal v"
  shows "\<exists>st' obj'. put_properties rt (execute rt (Suc n)) p ps st = Some (Inr ((), st'))
           \<and> object_at p st' = Some obj' \<and> kind obj' = PlainObject
           \<and> (\<forall>k v. (k, Literal v) \<in> set ps \<longrightarrow> m_properties obj' k = Some v)
           \<and> (\<forall>k. k \<notin> fst ` set ps \<longrightarrow> m_properties obj' k = m_properties obj k)"
  using assms
proof (induction ps arbitrary: st obj)
  case Nil
  then show ?case by simp
next
  case (Cons pair ps)
  obtain k v where pair: "pair = (k, Literal v)"
    using Cons.prems(4) by (cases pair) auto
  define obj1 where "obj1 = obj\<lparr>m_properties := (m_properties obj)(k \<mapsto> v)\<rparr>"
  define st1 where "st1 = st\<lparr>heap := (heap st)\<lparr>cells := (cells (heap st))(p \<mapsto> obj1)\<rparr>\<rparr>"
  have put: "put_at rt p (KeyString k) v st = Some (Inr ((), st1))"
    using Cons.prems(1,2)
    by (simp add: put_at_def virtual_put_def is_indexed_def Object_put_def
          PropertyKey_is_string_def PropertyKey_string_def st1_def obj1_def)
  have step: "put_properties rt (execute rt (Suc n)) p (pair # ps) st
                = put_properties rt (execute rt (Suc n)) p ps st1"
    by (simp add: pair Literal_execute_def put)
  have cell1: "object_at p st1 = Some obj1" "kind obj1 = PlainObject"
    using Cons.prems(2) by (simp_all add: st1_def obj1_def object_at_def)
  from Cons.prems(3,4) have rest: "distinct (map fst ps)" "\<forall>node \<in> snd ` set ps. \<exists>v. node = Literal v"
    by auto
  from Cons.IH [OF cell1 rest] obtain st' obj' where IH:
    "put_properties rt (execute rt (Suc n)) p ps st1 = Some (Inr ((), st'))"
    "object_at p st' = Some obj'" "kind obj' = PlainObject"
    "\<forall>k' v'. (k', Literal v') \<in> set ps \<longrightarrow> m_properties obj' k' = Some v'"
    "\<forall>k'. k' \<notin> fst ` set ps \<longrightarrow> m_properties obj' k' = m_properties obj1 k'"
    by blast
  have fresh: "k \<notin> fst ` set ps"
    using Cons.prems(3) by (simp add: pair)
  have mine: "m_properties obj' k = Some v"
    using IH(5) fresh by (simp add: obj1_def)
  have all: "\<forall>k' v'. (k', Literal v') \<in> set (pair # ps) \<longrightarrow> m_properties obj' k' = Some v'"
    using IH(4) mine by (auto simp: pair)
  have others: "\<forall>k'. k' \<notin> fst ` set (pair # ps) \<longrightarrow> m_properties obj' k' = m_properties obj k'"
    using IH(5) by (auto simp: pair obj1_def)
  show ?case
    unfolding step using IH(1,2,3) all others by blast
qed

text \<open>
  What the loop of the FFI constructor leaves: the cells allocated before are untouched,
  the properties under other names are untouched, and each exported name is bound to a
  native function object that wraps an export of that name.
\<close>

lemma register_exports_result:
  "register_exports exports properties st = (properties', st') \<Longrightarrow>
     next_cell (heap st) \<le> next_cell (heap st')
   \<and> (\<forall>p < next_cell (heap st). object_at p st' = object_at p st)
   \<and> (\<forall>name. name \<notin> fst ` set exports \<longrightarrow> properties' name = properties name)
   \<and> (\<forall>name \<in> fst ` set exports. \<exists>p decl.
         properties' name = Some (ObjectValue p) \<and> (name, decl) \<in> set exports
         \<and> object_at p st' = Some \<lparr>m_properties = Map.empty, kind = NativeFunction decl\<rparr>)"
proof (induction exports arbitrary: properties st)
  case Nil
  then show ?case by simp
next
  case (Cons export exports)
  obtain name decl where export: "export = (name, decl)"
    by (cases export)
  define p where "p = next_cell (heap st)"
  define st1 where "st1 = snd (allocate (NativeFunction decl) st)"
  have alloc: "allocate (NativeFunction decl) st = (p, st1)"
    by (simp add: p_def st1_def allocate_def Heap_allocate_def)
  have next1: "next_cell (heap st1) = Suc p"
    by (simp add: p_def st1_def allocate_def Heap_allocate_def)
  have cell1: "object_at p st1 = Some \<lparr>m_properties = Map.empty, kind = NativeFunction decl\<rparr>"
    by (simp add: p_def st1_def allocate_def Heap_allocate_def object_at_def)
  have old1: "q < p \<Longrightarrow> object_at q st1 = object_at q st" for q
    by (simp add: p_def st1_def allocate_def Heap_allocate_def object_at_def)
  from Cons.prems have rest:
    "register_exports exports (properties(name \<mapsto> ObjectValue p)) st1 = (properties', st')"
    by (simp add: export alloc)
  note IH = Cons.IH [OF rest]
  have mono: "next_cell (heap st) \<le> next_cell (heap st')"
    using IH next1 by (simp add: p_def)
  have old: "\<forall>q < next_cell (heap st). object_at q st' = object_at q st"
    using IH next1 old1 by (simp add: p_def)
  have other: "\<forall>n. n \<notin> fst ` set (export # exports) \<longrightarrow> properties' n = properties n"
    using IH by (auto simp: export)
  have mine: "\<exists>q d. properties' n = Some (ObjectValue q) \<and> (n, d) \<in> set (export # exports)
                \<and> object_at q st' = Some \<lparr>m_properties = Map.empty, kind = NativeFunction d\<rparr>"
    if n: "n \<in> fst ` set (export # exports)" for n
  proof (cases "n \<in> fst ` set exports")
    case True
    with IH obtain q d where "properties' n = Some (ObjectValue q)" "(n, d) \<in> set exports"
      "object_at q st' = Some \<lparr>m_properties = Map.empty, kind = NativeFunction d\<rparr>"
      by blast
    then show ?thesis by auto
  next
    case False
    with n have n_eq: "n = name" by (auto simp: export)
    from False IH have "properties' n = (properties(name \<mapsto> ObjectValue p)) n" by blast
    then have "properties' n = Some (ObjectValue p)" by (simp add: n_eq)
    moreover have "object_at p st' = object_at p st1" using IH next1 by simp
    ultimately show ?thesis using cell1 by (auto simp: export n_eq)
  qed
  show ?case using mono old other mine by blast
qed

subsection \<open>Binary expressions: \<open>and\<close>, \<open>or\<close>\<close>

text \<open>
  C1, as stated, fails: with a false left operand, the right operand of \<open>and\<close> is
  executed all the same, and so is the right operand of \<open>or\<close> with a true left operand.
  Here the right operand is the assignment \<open>x = 1\<close>; \<open>x\<close> is unbound after the left
  operand alone and bound to 1 after the whole expression.
\<close>

theorem and_or_execute_rhs_counterexample:
  "execute int_runtime 1 (Literal (BooleanValue False)) initial
     = Some (Inr (BooleanValue False, initial))
   \<and> variable_after ''x'' (execute int_runtime 1 (Literal (BooleanValue False)) initial) = None
   \<and> variable_after ''x''
        (execute int_runtime 3
           (BinaryExpression (Literal (BooleanValue False)) Op_And
              (AssignmentExpression (Identifier ''x'') (Literal (NumberValue 1)))) initial)
       = Some (NumberValue 1)
   \<and> variable_after ''x''
        (execute int_runtime 3
           (BinaryExpression (Literal (BooleanValue True)) Op_Or
              (AssignmentExpression (Identifier ''x'') (Literal (NumberValue 1)))) initial)
       = Some (NumberValue 1)"
  by (simp add: evaluation)

text \<open>
  C1, amended: a binary expression executes its left operand and then, in the state the
  left operand left, its right operand, whatever the operator and whatever the left value;
  a failure of the right operand is the failure of the expression. When both operands
  have a value, the value of \<open>and\<close> is the left value if that is falsy and the right
  value otherwise, the value of \<open>or\<close> is the left value if that is truthy and the right
  value otherwise, and the state is the one the right operand left.
\<close>

theorem and_or_execute_both_operands:
  assumes "execute rt n lhs st = Some (Inr (l, st1))"
  shows "execute rt (Suc n) (BinaryExpression lhs Op_And rhs) st =
           and_then (execute rt n rhs st1)
             (\<lambda>r st2. Some (Inr (if Value_to_boolean l then r else l, st2)))
       \<and> execute rt (Suc n) (BinaryExpression lhs Op_Or rhs) st =
           and_then (execute rt n rhs st1)
             (\<lambda>r st2. Some (Inr (if Value_to_boolean l then l else r, st2)))"
  using assms
  by (simp add: BinaryExpression_execute_def Value_logical_and_def Value_logical_or_def)

theorem and_or_execute_both_operands_witness:
  "execute int_runtime 2
     (BinaryExpression (Literal (BooleanValue False)) Op_And (Literal (NumberValue 7))) initial
     = Some (Inr (BooleanValue False, initial))
   \<and> execute int_runtime 2
     (BinaryExpression (Literal (BooleanValue False)) Op_Or (Literal (NumberValue 7))) initial
     = Some (Inr (NumberValue 7, initial))"
proof -
  have lhs: "execute int_runtime 1 (Literal (BooleanValue False)) initial
               = Some (Inr (BooleanValue False, initial))"
    by (simp add: Literal_execute_def)
  have rhs: "execute int_runtime 1 (Literal (NumberValue 7)) initial
               = Some (Inr (NumberValue 7, initial))"
    by (simp add: Literal_execute_def)
  show ?thesis
    using and_or_execute_both_operands [OF lhs, of "Literal (NumberValue 7)"] rhs
    by (simp add: eval_nat_numeral)
qed

subsection \<open>Calls\<close>

text \<open>
  C4, as stated, fails: a function declared with one parameter and called with no
  argument does not run its body with the parameter bound to the default value or to nil;
  the call fails the assertion on the sizes, with a default value and without. Called with
  one argument, the function returns it.
\<close>

theorem call_with_fewer_arguments_counterexample:
  "execute int_runtime 3
     (BlockStatement
        [FunctionDeclaration (Some ''f'') [ReturnStatement (Identifier ''a'')]
           [(''a'', Some (Literal (NumberValue 1)))],
         CallExpression (Identifier ''f'') []]) initial
     = Some (Inl AssertionFailed)
   \<and> execute int_runtime 3
     (BlockStatement
        [FunctionDeclaration (Some ''f'') [ReturnStatement (Identifier ''a'')] [(''a'', None)],
         CallExpression (Identifier ''f'') []]) initial
     = Some (Inl AssertionFailed)
   \<and> value_of (execute int_runtime 5
     (BlockStatement
        [FunctionDeclaration (Some ''f'') [ReturnStatement (Identifier ''a'')] [(''a'', None)],
         CallExpression (Identifier ''f'') [Literal (NumberValue 9)]]) initial)
     = Some (NumberValue 9)"
  by (simp add: evaluation)

text \<open>
  C4, amended: a call of a function with a number of arguments other than the number of
  its parameters fails the assertion \<open>parameters().size() == m_arguments.size()\<close>; no
  argument and no default-value expression is evaluated and the body is not run. A call
  with as many arguments as parameters evaluates the arguments in order, binds each
  parameter's name to its argument's value, and runs the body in a function scope that
  starts with these bindings.
\<close>

theorem call_of_function_asserts_sizes:
  assumes "execute_callee (execute rt n) callee st = Some (Inr (ObjectValue p, st1))"
      and "object_at p st1 = Some obj"
      and "kind obj = FunctionObject name body parameters"
  shows "(length arguments \<noteq> length parameters \<longrightarrow>
            execute rt (Suc n) (CallExpression callee arguments) st = Some (Inl AssertionFailed))
       \<and> (length arguments = length parameters \<longrightarrow>
            execute rt (Suc n) (CallExpression callee arguments) st =
              and_then (pass_arguments (execute rt n) (zip parameters arguments) Map.empty st1)
                (\<lambda>passed_arguments st2.
                   Interpreter_run (execute rt n) body ScopeType_Function passed_arguments st2))"
  using assms by (auto simp: CallExpression_execute_def)

theorem call_of_function_asserts_sizes_witness:
  "execute int_runtime 1 (CallExpression (Identifier ''f'') []) function_in_scope
     = Some (Inl AssertionFailed)
   \<and> value_of (execute int_runtime 4 (CallExpression (Identifier ''f'') [Literal (NumberValue 9)])
        function_in_scope) = Some (NumberValue 9)"
proof -
  have callee: "execute_callee (execute int_runtime n) (Identifier ''f'') function_in_scope
                  = Some (Inr (ObjectValue 0, function_in_scope))" for n
    by (simp add: function_in_scope_def evaluation)
  have cell: "object_at 0 function_in_scope
                = Some \<lparr>m_properties = Map.empty,
                        kind = FunctionObject (Some ''f'') [ReturnStatement (Identifier ''a'')]
                                 [(''a'', Some (Literal (NumberValue 1)))]\<rparr>"
    by (simp add: function_in_scope_def evaluation)
  have fewer: "execute int_runtime 1 (CallExpression (Identifier ''f'') []) function_in_scope
                 = Some (Inl AssertionFailed)"
    using call_of_function_asserts_sizes [OF callee [of 0] cell, where arguments = "[]"] by simp
  have same: "execute int_runtime 4 (CallExpression (Identifier ''f'') [Literal (NumberValue 9)])
                function_in_scope
              = and_then (pass_arguments (execute int_runtime 3)
                  (zip [(''a'', Some (Literal (NumberValue 1)))] [Literal (NumberValue 9)])
                  Map.empty function_in_scope)
                (\<lambda>passed_arguments st2.
                   Interpreter_run (execute int_runtime 3) [ReturnStatement (Identifier ''a'')]
                     ScopeType_Function passed_arguments st2)"
    using call_of_function_asserts_sizes
            [OF callee [of 3] cell, where arguments = "[Literal (NumberValue 9)]"]
    by (simp add: eval_nat_numeral)
  show ?thesis
    unfolding same using fewer by (simp add: function_in_scope_def evaluation)
qed

text \<open>
  C5, as stated, fails: calling nil, a number or a bool fails the assertion
  \<open>value.is_object()\<close>, and calling a plain object reaches \<open>__builtin_unreachable()\<close>;
  no TypeError is thrown.
\<close>

theorem call_of_non_callable_counterexample:
  "execute int_runtime 3
     (BlockStatement
        [AssignmentExpression (Identifier ''x'') (Literal NilValue),
         CallExpression (Identifier ''x'') []]) initial
     = Some (Inl AssertionFailed)
  \<and> execute int_runtime 3
     (BlockStatement
        [AssignmentExpression (Identifier ''x'') (Literal (NumberValue 3)),
         CallExpression (Identifier ''x'') []]) initial
     = Some (Inl AssertionFailed)
  \<and> execute int_runtime 3
     (BlockStatement
        [AssignmentExpression (Identifier ''x'') (Literal (BooleanValue True)),
         CallExpression (Identifier ''x'') []]) initial
     = Some (Inl AssertionFailed)
  \<and> execute int_runtime 4
     (BlockStatement
        [AssignmentExpression (Identifier ''x'') (ObjectExpression []),
         CallExpression (Identifier ''x'') []]) initial
     = Some (Inl Unreachable)"
  by (simp add: evaluation)

text \<open>
  C5, amended: a call whose callee evaluates to a value that is not an object (nil, a
  number, a bool) fails the assertion \<open>value.is_object()\<close>, and a call whose callee is
  an object that is neither a function nor a native function reaches
  \<open>__builtin_unreachable()\<close>; in both cases no argument is evaluated and no exception
  of the language is thrown.
\<close>

theorem call_of_non_callable_asserts:
  assumes "execute_callee (execute rt n) callee st = Some (Inr (v, st1))"
  shows "((\<forall>p. v \<noteq> ObjectValue p) \<longrightarrow>
            execute rt (Suc n) (CallExpression callee arguments) st = Some (Inl AssertionFailed))
       \<and> (\<forall>p obj. v = ObjectValue p \<and> object_at p st1 = Some obj
             \<and> \<not> is_function obj \<and> \<not> is_native_function obj \<longrightarrow>
            execute rt (Suc n) (CallExpression callee arguments) st = Some (Inl Unreachable))"
  using assms
  by (auto simp: CallExpression_execute_def is_function_def is_native_function_def
           split: Value.splits ObjectKind.splits)

theorem call_of_non_callable_asserts_witness:
  "execute int_runtime 1 (CallExpression (Identifier ''x'') [Identifier ''y''])
     (set_variable ''x'' NilValue initial) = Some (Inl AssertionFailed)
   \<and> execute int_runtime 1 (CallExpression (Identifier ''x'') [Identifier ''y''])
     (set_variable ''x'' (ObjectValue 0) (snd (allocate PlainObject initial)))
       = Some (Inl Unreachable)"
proof -
  let ?nil = "set_variable ''x'' NilValue initial :: int Interpreter"
  let ?obj = "set_variable ''x'' (ObjectValue 0) (snd (allocate PlainObject initial)) :: int Interpreter"
  have nil: "execute_callee (execute int_runtime 0) (Identifier ''x'') ?nil
               = Some (Inr (NilValue, ?nil))"
    by (simp add: evaluation)
  have obj: "execute_callee (execute int_runtime 0) (Identifier ''x'') ?obj
               = Some (Inr (ObjectValue 0, ?obj))"
    by (simp add: evaluation)
  have cell: "object_at 0 ?obj = Some \<lparr>m_properties = Map.empty, kind = PlainObject\<rparr>"
    by (simp add: evaluation)
  show ?thesis
    using call_of_non_callable_asserts [OF nil, where arguments = "[Identifier ''y'']"]
          call_of_non_callable_asserts [OF obj, where arguments = "[Identifier ''y'']"] cell
    by (simp add: is_function_def is_native_function_def)
qed

subsection \<open>\<open>if\<close> without \<open>else\<close>\<close>



subsection \<open>Assignment to a computed member\<close>

text \<open>
  C10: an assignment \<open>o[k] = v\<close> whose key is a number or a string should put the
  property and return the value. On the code it puts the property and then reaches
  \<open>__builtin_unreachable()\<close>, for the number key 1 and for the string key \<open>k\<close> (the
  string object in cell 0) alike; reading \<open>o[k]\<close>, where the marker stands in the final
  \<open>else\<close>, yields the property.
\<close>

theorem computed_assignment_reaches_unreachable:
  "execute int_runtime 4
     (BlockStatement
        [AssignmentExpression (Identifier ''o'') (ObjectExpression []),
         AssignmentExpression (MemberExpression (Identifier ''o'') (Literal (NumberValue 1)) True)
           (Literal (NumberValue 5))]) initial
     = Some (Inl Unreachable)
   \<and> execute int_runtime 4
     (BlockStatement
        [AssignmentExpression (Identifier ''o'') (ObjectExpression []),
         AssignmentExpression (MemberExpression (Identifier ''o'') (Literal (ObjectValue 0)) True)
           (Literal (NumberValue 5))]) (snd (allocate (StringObject ''k'') initial))
     = Some (Inl Unreachable)
   \<and> value_of (execute int_runtime 4
     (BlockStatement
        [AssignmentExpression (Identifier ''o'')
           (ObjectExpression [(''k'', Literal (NumberValue 5))]),
         MemberExpression (Identifier ''o'') (Literal (ObjectValue 0)) True])
        (snd (allocate (StringObject ''k'') initial)))
     = Some (NumberValue 5)"
  by (simp add: evaluation)

subsection \<open>Function declarations\<close>

text \<open>
  C2, as stated, fails. The program is
  \<open>fn mk() n = 5; return fn() return n end end; f = mk(); f()\<close>: the inner function is
  declared where \<open>n\<close> is bound to 5, and is called after \<open>mk\<close> has returned. Resolved
  in the defining environment, \<open>n\<close> would be 5; the call ends with a ReferenceError.
\<close>

theorem closure_call_counterexample:
  "execute int_runtime 6
     (BlockStatement
        [FunctionDeclaration (Some ''mk'')
           [AssignmentExpression (Identifier ''n'') (Literal (NumberValue 5)),
            ReturnStatement (FunctionDeclaration None [ReturnStatement (Identifier ''n'')] [])] [],
         AssignmentExpression (Identifier ''f'') (CallExpression (Identifier ''mk'') []),
         CallExpression (Identifier ''f'') []]) initial
     = Some (Inl (Thrown ReferenceError))"
  by (simp add: evaluation)

text \<open>
  C2, amended: evaluating a function declaration allocates a function object that holds
  the declaration's name, body and parameters and no scope chain: the object is the same
  whatever scopes are current at the declaration. If the declaration has a name, the name
  is then bound to the function; the value of the expression is the function. A later
  call passes to \<open>Interpreter::run\<close> the body and the argument bindings only, and the
  body runs in a function scope entered at the call.
\<close>

theorem function_declaration_captures_no_scope:
  "(\<exists>st'. execute rt (Suc n) (FunctionDeclaration name body parameters) st
             = Some (Inr (ObjectValue (next_cell (heap st)), st'))
        \<and> object_at (next_cell (heap st)) st'
             = Some \<lparr>m_properties = Map.empty, kind = FunctionObject name body parameters\<rparr>
        \<and> (case name of
              None \<Rightarrow> scope_stack st' = scope_stack st
            | Some f \<Rightarrow> lookup_scopes f (scope_stack st') = Some (ObjectValue (next_cell (heap st))))
        \<and> (\<forall>scopes. \<exists>st''.
              execute rt (Suc n) (FunctionDeclaration name body parameters) (st\<lparr>scope_stack := scopes\<rparr>)
                = Some (Inr (ObjectValue (next_cell (heap st)), st''))
              \<and> object_at (next_cell (heap st)) st'' = object_at (next_cell (heap st)) st'))
   \<and> (get_variable g st = Some (Inr (ObjectValue p, st))
       \<and> object_at p st = Some obj \<and> kind obj = FunctionObject name body [] \<longrightarrow>
       execute rt (Suc n) (CallExpression (Identifier g) []) st
         = Interpreter_run (execute rt n) body ScopeType_Function Map.empty st)"
  by (auto simp: FunctionDeclaration_execute_def allocate_def Heap_allocate_def object_at_def
        lookup_set_variable heap_set_variable CallExpression_execute_def execute_callee_def
        split: option.splits)

theorem function_declaration_captures_no_scope_witness:
  "value_of (execute int_runtime 1 (FunctionDeclaration (Some ''h'') [] []) initial)
     = Some (ObjectValue 0)
   \<and> variable_after ''h'' (execute int_runtime 1 (FunctionDeclaration (Some ''h'') [] []) initial)
     = Some (ObjectValue 0)
   \<and> value_of (execute int_runtime 4 (CallExpression (Identifier ''g'') []) constant_in_scope)
     = Some (NumberValue 5)"
proof -
  have bound: "get_variable ''g'' constant_in_scope = Some (Inr (ObjectValue 0, constant_in_scope))"
    by (simp add: constant_in_scope_def evaluation)
  have cell: "object_at 0 constant_in_scope
                = Some \<lparr>m_properties = Map.empty,
                        kind = FunctionObject None [ReturnStatement (Literal (NumberValue 5))] []\<rparr>"
    by (simp add: constant_in_scope_def evaluation)
  from function_declaration_captures_no_scope
         [where rt = int_runtime and n = 3 and g = "''g''" and st = constant_in_scope and p = 0
            and name = None and body = "[ReturnStatement (Literal (NumberValue 5))]"
            and obj = "\<lparr>m_properties = Map.empty,
                        kind = FunctionObject None [ReturnStatement (Literal (NumberValue 5))] []\<rparr>"]
       bound cell
  have call: "execute int_runtime 4 (CallExpression (Identifier ''g'') []) constant_in_scope
                = Interpreter_run (execute int_runtime 3) [ReturnStatement (Literal (NumberValue 5))]
                    ScopeType_Function Map.empty constant_in_scope"
    by (simp add: eval_nat_numeral)
  have declared:
    "\<exists>st'. execute int_runtime (Suc 0) (FunctionDeclaration (Some ''h'') [] []) initial
              = Some (Inr (ObjectValue (next_cell (heap (initial :: int Interpreter))), st'))
         \<and> (case Some ''h'' of
               None \<Rightarrow> scope_stack st' = scope_stack (initial :: int Interpreter)
             | Some f \<Rightarrow>
                 lookup_scopes f (scope_stack st')
                   = Some (ObjectValue (next_cell (heap (initial :: int Interpreter)))))"
    using function_declaration_captures_no_scope
            [where rt = int_runtime and n = 0 and st = initial and name = "Some ''h''"
               and body = "[]" and parameters = "[]"]
    by blast
  have fresh: "next_cell (heap (initial :: int Interpreter)) = 0"
    by (simp add: initial_def)
  from declared have
    "value_of (execute int_runtime (Suc 0) (FunctionDeclaration (Some ''h'') [] []) initial)
       = Some (ObjectValue 0)
     \<and> variable_after ''h''
         (execute int_runtime (Suc 0) (FunctionDeclaration (Some ''h'') [] []) initial)
       = Some (ObjectValue 0)"
    unfolding fresh by (auto simp del: execute.simps simp add: value_of_def variable_after_def)
  then show ?thesis
    unfolding call by (simp add: constant_in_scope_def evaluation)
qed

subsection \<open>Reading a property\<close>

text \<open>
  C3, as stated, fails: \<open>Object::get\<close> on a key the object does not contain does not
  return nil, it throws \<open>std::out_of_range\<close>.
\<close>

theorem get_of_missing_key_counterexample:
  "Object_get int_runtime (KeyString ''k'') \<lparr>m_properties = Map.empty, kind = PlainObject\<rparr>
     = Inl OutOfRange"
  by (simp add: evaluation)

text \<open>
  C3, amended: \<open>Object::get\<close> on a key the object does not contain throws
  \<open>std::out_of_range\<close> (it is \<open>m_properties.at\<close>), and \<open>Object::contains\<close> is false
  there. Evaluating a member expression whose property is absent from the object
  evaluates to nil and raises no error, because \<open>MemberExpression::execute\<close> calls
  \<open>get\<close> only when \<open>contains\<close> holds. (The object is any object other than an array
  or a string, whose accessors are not among the sources.)
\<close>

theorem member_of_absent_property_is_nil:
  "(PropertyKey_is_string rt key \<and> m_properties obj (PropertyKey_string rt key) = None \<longrightarrow>
      Object_get rt key obj = Inl OutOfRange \<and> Object_contains rt key obj = Inr False)
   \<and> (execute rt n object st = Some (Inr (object_value, st_object))
      \<and> Value_to_object object_value st_object = (p, st_boxed)
      \<and> member_key (execute rt n) property computed st_boxed = Some (Inr (key, st_key))
      \<and> object_at p st_key = Some cell
      \<and> \<not> is_indexed cell
      \<and> PropertyKey_is_string rt key \<and> m_properties cell (PropertyKey_string rt key) = None \<longrightarrow>
      execute rt (Suc n) (MemberExpression object property computed) st = Some (Inr (NilValue, st_key)))"
  by (auto simp: Object_get_def Object_contains_def MemberExpression_execute_def virtual_contains_def)

theorem member_of_absent_property_is_nil_witness:
  "Object_contains int_runtime (KeyString ''k'') \<lparr>m_properties = Map.empty, kind = PlainObject\<rparr>
     = Inr False
   \<and> execute int_runtime 2 (MemberExpression (Identifier ''o'') (Identifier ''k'') False)
       object_in_scope = Some (Inr (NilValue, object_in_scope))"
proof -
  have object: "execute int_runtime 1 (Identifier ''o'') object_in_scope
                  = Some (Inr (ObjectValue 0, object_in_scope))"
    by (simp add: object_in_scope_def evaluation)
  have pointer: "Value_to_object (ObjectValue 0) object_in_scope = (0, object_in_scope)"
    by (simp add: Value_to_object_def)
  have key: "member_key (execute int_runtime 1) (Identifier ''k'') False object_in_scope
               = Some (Inr (KeyString ''k'', object_in_scope))"
    by (simp add: member_key_def)
  have cell: "object_at 0 object_in_scope = Some \<lparr>m_properties = Map.empty, kind = PlainObject\<rparr>"
    by (simp add: object_in_scope_def evaluation)
  show ?thesis
    using member_of_absent_property_is_nil
            [where rt = int_runtime and key = "KeyString ''k''" and n = 1
               and obj = "\<lparr>m_properties = Map.empty, kind = PlainObject\<rparr>"
               and object = "Identifier ''o''" and st = object_in_scope
               and object_value = "ObjectValue 0" and st_object = object_in_scope and p = 0
               and st_boxed = object_in_scope and property = "Identifier ''k''" and computed = False
               and st_key = object_in_scope
               and cell = "\<lparr>m_properties = Map.empty, kind = PlainObject\<rparr>"]
          object pointer key cell
    by (simp add: PropertyKey_is_string_def PropertyKey_string_def is_indexed_def eval_nat_numeral)
qed

subsection \<open>Number keys\<close>



subsection \<open>Object expressions\<close>

text \<open>
  C7, as stated, fails: in \<open>{b: x = 1, a: x = 2}\<close> the value of \<open>a\<close> is evaluated
  first, although \<open>b\<close> is declared first, and \<open>x\<close> ends as 1. (An array expression
  with the same two elements evaluates them as declared, and \<open>x\<close> ends as 2.)
\<close>

theorem object_expression_order_counterexample:
  "variable_after ''x'' (execute int_runtime 3 (ObjectExpression
      [(''b'', AssignmentExpression (Identifier ''x'') (Literal (NumberValue 1))),
       (''a'', AssignmentExpression (Identifier ''x'') (Literal (NumberValue 2)))]) initial)
    = Some (NumberValue 1)
  \<and> variable_after ''x'' (execute int_runtime 3 (ArrayExpression
      [AssignmentExpression (Identifier ''x'') (Literal (NumberValue 1)),
       AssignmentExpression (Identifier ''x'') (Literal (NumberValue 2))]) initial)
    = Some (NumberValue 2)"
  by (simp add: evaluation)

text \<open>
  C7, amended: evaluating an object expression (with distinct keys) first allocates a
  plain object, then evaluates the property value expressions in ascending order of their
  keys, whatever order they were declared in, putting each value under its key as it is
  evaluated, and yields the object: declared in another order, the properties evaluate
  the same, and declared in ascending order of the keys they are evaluated as declared.
  When the values are literals, the object yielded is the newly allocated one and its
  properties are exactly the declared pairs.
\<close>

theorem object_expression_evaluates_in_key_order:
  "(mset properties = mset properties' \<and> distinct (map fst properties) \<longrightarrow>
      execute rt (Suc n) (ObjectExpression properties) st
        = execute rt (Suc n) (ObjectExpression properties') st)
   \<and> (sorted (map fst properties) \<longrightarrow>
      execute rt (Suc n) (ObjectExpression properties) st
        = (case allocate PlainObject st of
             (object, st1) \<Rightarrow>
               and_then (put_properties rt (execute rt n) object properties st1)
                 (\<lambda>u st2. Some (Inr (ObjectValue object, st2)))))
   \<and> (distinct (map fst properties) \<and> (\<forall>node \<in> snd ` set properties. \<exists>v. node = Literal v) \<longrightarrow>
      (\<exists>st' obj. execute rt (Suc (Suc n)) (ObjectExpression properties) st
                      = Some (Inr (ObjectValue (next_cell (heap st)), st'))
           \<and> object_at (next_cell (heap st)) st' = Some obj \<and> kind obj = PlainObject
           \<and> (\<forall>k v. (k, Literal v) \<in> set properties \<longrightarrow> m_properties obj k = Some v)
           \<and> dom (m_properties obj) = fst ` set properties))"
proof (intro conjI impI)
  assume "mset properties = mset properties' \<and> distinct (map fst properties)"
  then show "execute rt (Suc n) (ObjectExpression properties) st
               = execute rt (Suc n) (ObjectExpression properties') st"
    by (simp add: ObjectExpression_execute_def map_order_permutation [of properties properties'])
next
  assume "sorted (map fst properties)"
  then show "execute rt (Suc n) (ObjectExpression properties) st
               = (case allocate PlainObject st of
                    (object, st1) \<Rightarrow>
                      and_then (put_properties rt (execute rt n) object properties st1)
                        (\<lambda>u st2. Some (Inr (ObjectValue object, st2))))"
    by (simp add: ObjectExpression_execute_def map_order_def sort_key_id_if_sorted)
next
  assume literals:
    "distinct (map fst properties) \<and> (\<forall>node \<in> snd ` set properties. \<exists>v. node = Literal v)"
  define p where "p = next_cell (heap st)"
  define st1 where "st1 = snd (allocate PlainObject st)"
  have alloc: "allocate PlainObject st = (p, st1)"
    by (simp add: p_def st1_def allocate_def Heap_allocate_def)
  have cell: "object_at p st1 = Some \<lparr>m_properties = Map.empty, kind = PlainObject\<rparr>"
    by (simp add: p_def st1_def allocate_def Heap_allocate_def object_at_def)
  have "distinct (map fst (map_order properties))"
       "\<forall>node \<in> snd ` set (map_order properties). \<exists>v. node = Literal v"
    using literals by (simp_all add: map_order_def distinct_map)
  from put_properties_literals [OF cell _ this, of rt n]
  obtain st' obj' where put:
    "put_properties rt (execute rt (Suc n)) p (map_order properties) st1 = Some (Inr ((), st'))"
    "object_at p st' = Some obj'" "kind obj' = PlainObject"
    "\<forall>k v. (k, Literal v) \<in> set properties \<longrightarrow> m_properties obj' k = Some v"
    "\<forall>k. k \<notin> fst ` set properties \<longrightarrow> m_properties obj' k = None"
    by (auto simp: map_order_def)
  have "dom (m_properties obj') = fst ` set properties"
  proof (rule set_eqI)
    fix k
    show "k \<in> dom (m_properties obj') \<longleftrightarrow> k \<in> fst ` set properties"
    proof (cases "k \<in> fst ` set properties")
      case True
      then obtain node where "(k, node) \<in> set properties" by auto
      with literals obtain v where "(k, Literal v) \<in> set properties" by force
      with put(4) True show ?thesis by auto
    next
      case False
      with put(5) show ?thesis by auto
    qed
  qed
  with put show "\<exists>st' obj. execute rt (Suc (Suc n)) (ObjectExpression properties) st
                      = Some (Inr (ObjectValue (next_cell (heap st)), st'))
           \<and> object_at (next_cell (heap st)) st' = Some obj \<and> kind obj = PlainObject
           \<and> (\<forall>k v. (k, Literal v) \<in> set properties \<longrightarrow> m_properties obj k = Some v)
           \<and> dom (m_properties obj) = fst ` set properties"
    by (simp add: ObjectExpression_execute_def alloc p_def)
qed

theorem object_expression_evaluates_in_key_order_witness:
  "execute int_runtime 3 (ObjectExpression
      [(''b'', AssignmentExpression (Identifier ''x'') (Literal (NumberValue 1))),
       (''a'', AssignmentExpression (Identifier ''x'') (Literal (NumberValue 2)))]) initial
   = execute int_runtime 3 (ObjectExpression
      [(''a'', AssignmentExpression (Identifier ''x'') (Literal (NumberValue 2))),
       (''b'', AssignmentExpression (Identifier ''x'') (Literal (NumberValue 1)))]) initial
   \<and> value_of (execute int_runtime 3 (ObjectExpression
      [(''a'', AssignmentExpression (Identifier ''x'') (Literal (NumberValue 2))),
       (''b'', AssignmentExpression (Identifier ''x'') (Literal (NumberValue 1)))]) initial)
     = Some (ObjectValue 0)
   \<and> value_of (execute int_runtime 2 (ObjectExpression
      [(''b'', Literal (NumberValue 1)), (''a'', Literal (NumberValue 2))]) initial)
     = Some (ObjectValue 0)"
proof -
  let ?declared = "[(''b'', AssignmentExpression (Identifier ''x'') (Literal (NumberValue (1::int)))),
                    (''a'', AssignmentExpression (Identifier ''x'') (Literal (NumberValue 2)))]"
  let ?ordered = "[(''a'', AssignmentExpression (Identifier ''x'') (Literal (NumberValue (2::int)))),
                   (''b'', AssignmentExpression (Identifier ''x'') (Literal (NumberValue 1)))]"
  let ?literals = "[(''b'', Literal (NumberValue (1::int))), (''a'', Literal (NumberValue 2))]"
  have permutation: "mset ?declared = mset ?ordered"
    by (simp add: add.commute)
  have keys: "distinct (map fst ?declared)" "sorted (map fst ?ordered)"
    by simp_all
  from object_expression_evaluates_in_key_order
         [where rt = int_runtime and n = 2 and st = initial
            and properties = ?declared and properties' = ?ordered]
       permutation keys(1)
  have same: "execute int_runtime 3 (ObjectExpression ?declared) initial
                = execute int_runtime 3 (ObjectExpression ?ordered) initial"
    by (simp add: eval_nat_numeral)
  from object_expression_evaluates_in_key_order
         [where rt = int_runtime and n = 2 and st = initial and properties = ?ordered]
       keys(2)
  have "execute int_runtime 3 (ObjectExpression ?ordered) initial
          = (case allocate PlainObject initial of
               (object, st1) \<Rightarrow>
                 and_then (put_properties int_runtime (execute int_runtime 2) object ?ordered st1)
                   (\<lambda>u st2. Some (Inr (ObjectValue object, st2))))"
    by (simp add: eval_nat_numeral)
  then have ordered: "value_of (execute int_runtime 3 (ObjectExpression ?ordered) initial)
               = Some (ObjectValue 0)"
    by (simp add: evaluation)
  have pure: "distinct (map fst ?literals) \<and> (\<forall>node \<in> snd ` set ?literals. \<exists>v. node = Literal v)"
    by simp
  from object_expression_evaluates_in_key_order
         [where rt = int_runtime and n = 0 and st = initial and properties = ?literals
            and properties' = ?literals, THEN conjunct2, THEN conjunct2, THEN mp, OF pure]
  obtain st' where
    "execute int_runtime (Suc (Suc 0)) (ObjectExpression ?literals) initial
       = Some (Inr (ObjectValue (next_cell (heap (initial :: int Interpreter))), st'))"
    by blast
  then have "value_of (execute int_runtime (Suc (Suc 0)) (ObjectExpression ?literals) initial)
               = Some (ObjectValue (next_cell (heap (initial :: int Interpreter))))"
    by (simp only: value_of_def option.case sum.case prod.case)
  then have "value_of (execute int_runtime (Suc (Suc 0)) (ObjectExpression ?literals) initial)
               = Some (ObjectValue 0)"
    by (simp only: initial_def Interpreter.simps Heap.simps)
  then have literals: "value_of (execute int_runtime 2 (ObjectExpression ?literals) initial)
               = Some (ObjectValue 0)"
    by (simp only: numeral_2_eq_2)
  from same ordered literals show ?thesis by simp
qed

subsection \<open>Loading an FFI module\<close>

text \<open>
  C9: the constructor of an FFI object throws FileNotFound when the library cannot be
  loaded and ReferenceError when the library has no \<open>OreInitialize\<close>. Otherwise it
  throws nothing and leaves an object whose properties are exactly the exported names,
  each bound to a native function object that wraps an export of that name; the object
  holds the handle, the library is open once more than before, and the destructor closes
  it and gives the loader back as it was before the construction.
\<close>

theorem ffi_object_construction:
  "(libraries ld filename = None \<longrightarrow>
      map_option fst (ffi_thrown (FFIObject_constructor filename ld st)) = Some FileNotFound)
   \<and> (libraries ld filename = Some None \<longrightarrow>
      map_option fst (ffi_thrown (FFIObject_constructor filename ld st)) = Some ReferenceError)
   \<and> (libraries ld filename = Some (Some exports) \<longrightarrow>
      ffi_thrown (FFIObject_constructor filename ld st) = None
      \<and> dom (m_properties (ffi_object (FFIObject_constructor filename ld st))) = fst ` set exports
      \<and> (\<forall>name \<in> fst ` set exports. \<exists>p decl.
            m_properties (ffi_object (FFIObject_constructor filename ld st)) name = Some (ObjectValue p)
            \<and> (name, decl) \<in> set exports
            \<and> object_at p (ffi_interpreter (FFIObject_constructor filename ld st))
                = Some \<lparr>m_properties = Map.empty, kind = NativeFunction decl\<rparr>)
      \<and> kind (ffi_object (FFIObject_constructor filename ld st)) = FFIObject (Some filename)
      \<and> open_count (ffi_loader (FFIObject_constructor filename ld st)) filename
          = Suc (open_count ld filename)
      \<and> FFIObject_destructor (ffi_object (FFIObject_constructor filename ld st))
          (ffi_loader (FFIObject_constructor filename ld st)) = Some ld)"
proof (intro conjI impI)
  assume "libraries ld filename = None"
  then show "map_option fst (ffi_thrown (FFIObject_constructor filename ld st)) = Some FileNotFound"
    by (simp add: FFIObject_constructor_def dlopen_def)
next
  assume "libraries ld filename = Some None"
  then show "map_option fst (ffi_thrown (FFIObject_constructor filename ld st)) = Some ReferenceError"
    by (simp add: FFIObject_constructor_def dlopen_def dlsym_OreInitialize_def)
next
  assume lib: "libraries ld filename = Some (Some exports)"
  obtain properties st1 where reg: "register_exports exports Map.empty st = (properties, st1)"
    by (cases "register_exports exports Map.empty st")
  have ctor: "FFIObject_constructor filename ld st =
      \<lparr>ffi_object = \<lparr>m_properties = properties, kind = FFIObject (Some filename)\<rparr>,
       ffi_thrown = None,
       ffi_loader = ld\<lparr>open_count := (open_count ld)(filename := Suc (open_count ld filename))\<rparr>,
       ffi_interpreter = st1\<rparr>"
    using lib reg by (simp add: FFIObject_constructor_def dlopen_def dlsym_OreInitialize_def)
  note res = register_exports_result [OF reg]
  show "ffi_thrown (FFIObject_constructor filename ld st) = None"
    by (simp add: ctor)
  show "dom (m_properties (ffi_object (FFIObject_constructor filename ld st))) = fst ` set exports"
  proof -
    have "properties name \<noteq> None \<longleftrightarrow> name \<in> fst ` set exports" for name
    proof (cases "name \<in> fst ` set exports")
      case True
      with res show ?thesis by fastforce
    next
      case False
      with res have "properties name = Map.empty name" by blast
      with False show ?thesis by simp
    qed
    then show ?thesis by (auto simp: ctor dom_def)
  qed
  show "\<forall>name \<in> fst ` set exports. \<exists>p decl.
            m_properties (ffi_object (FFIObject_constructor filename ld st)) name = Some (ObjectValue p)
            \<and> (name, decl) \<in> set exports
            \<and> object_at p (ffi_interpreter (FFIObject_constructor filename ld st))
                = Some \<lparr>m_properties = Map.empty, kind = NativeFunction decl\<rparr>"
    using res by (simp add: ctor)
  show "kind (ffi_object (FFIObject_constructor filename ld st)) = FFIObject (Some filename)"
    by (simp add: ctor)
  show "open_count (ffi_loader (FFIObject_constructor filename ld st)) filename
          = Suc (open_count ld filename)"
    by (simp add: ctor)
  show "FFIObject_destructor (ffi_object (FFIObject_constructor filename ld st))
          (ffi_loader (FFIObject_constructor filename ld st)) = Some ld"
    by (simp add: ctor FFIObject_destructor_def dlclose_def)
qed

theorem ffi_object_construction_witness:
  "map_option fst (ffi_thrown (FFIObject_constructor ''missing.so'' example_loader initial))
     = Some FileNotFound
   \<and> map_option fst (ffi_thrown (FFIObject_constructor ''plain.so'' example_loader initial))
     = Some ReferenceError
   \<and> ffi_thrown (FFIObject_constructor ''native.so'' example_loader initial) = None
   \<and> dom (m_properties (ffi_object (FFIObject_constructor ''native.so'' example_loader initial)))
     = {''first'', ''count''}
   \<and> open_count (ffi_loader (FFIObject_constructor ''native.so'' example_loader initial))
       ''native.so'' = 1
   \<and> FFIObject_destructor (ffi_object (FFIObject_constructor ''native.so'' example_loader initial))
       (ffi_loader (FFIObject_constructor ''native.so'' example_loader initial))
     = Some example_loader"
proof -
  have missing: "libraries example_loader ''missing.so'' = None"
    by (simp add: example_loader_def)
  have plain: "libraries example_loader ''plain.so'' = Some None"
    by (simp add: example_loader_def)
  have native: "libraries example_loader ''native.so''
                  = Some (Some [(''first'', \<lambda>args. case args of [] \<Rightarrow> NilValue | v # vs \<Rightarrow> v),
                                (''count'', \<lambda>args. NumberValue (int (length args)))])"
    by (simp add: example_loader_def)
  have closed: "open_count example_loader ''native.so'' = 0"
    by (simp add: example_loader_def)
  show ?thesis
    using ffi_object_construction [where ld = example_loader and filename = "''missing.so''"
            and st = "initial :: int Interpreter"] missing
          ffi_object_construction [where ld = example_loader and filename = "''plain.so''"
            and st = "initial :: int Interpreter"] plain
          ffi_object_construction [where ld = example_loader and filename = "''native.so''"
            and st = "initial :: int Interpreter"
            and exports = "[(''first'', \<lambda>args. case args of [] \<Rightarrow> NilValue | v # vs \<Rightarrow> v),
                            (''count'', \<lambda>args. NumberValue (int (length args)))]"]
          native closed
    by auto
qed

end
